theory Spec2Isabelle
  imports Main
begin

section \<open>Python values, errors and observable events\<close>

text \<open>
  The values the client handles are the ones \<^verbatim>\<open>json.loads\<close> produces and the ones it
  puts into a request payload. A dictionary is an association list in insertion order with
  distinct keys; a float is kept as a text that names it, since the program never
  computes with one.
\<close>

datatype pyval =
    PNone
  | PBool bool
  | PInt int
  | PFloat string
  | PStr string
  | PList "pyval list"
  | PDict "(string \<times> pyval) list"

datatype pyerror =
    KeyError string
  | TypeError
  | ValueError
  | JSONDecodeError
  | EOFError
  | AttributeError
  | RequestException

text \<open>What \<^verbatim>\<open>requests.get/post/patch/delete\<close> is called with: \<open>json = PNone\<close> is no body.\<close>

record http_call =
  meth :: string
  url :: string
  json :: pyval

record response =
  status_code :: int
  content :: string

text \<open>
  Everything the program does to the outside, in order: a request handed to the transport,
  a body handed to \<^verbatim>\<open>json.loads\<close>, a \<^verbatim>\<open>print\<close> call, an \<^verbatim>\<open>input\<close> call with its
  prompt and the line read (none at end of input), and the entry into the \<^verbatim>\<open>update\<close> of
  the listener object at an address.
\<close>

datatype event =
    Sent http_call
  | Decoded string
  | Printed string
  | Asked string "string option"
  | Updated nat

text \<open>
  The collaborators the repository does not implement: the HTTP transport, a state machine
  over a server state \<open>'s\<close> that answers a call or raises; \<^verbatim>\<open>json.loads\<close>;
  \<^verbatim>\<open>float()\<close> on a string; and \<^verbatim>\<open>str()\<close> on floats, lists and dictionaries.
\<close>

record 's world =
  transport :: "'s \<Rightarrow> http_call \<Rightarrow> (pyerror + response) \<times> 's"
  json_loads :: "string \<Rightarrow> pyerror + pyval"
  py_float :: "string \<Rightarrow> pyerror + pyval"
  str_other :: "pyval \<Rightarrow> string"

subsection \<open>Text of values\<close>

definition digit_char :: "nat \<Rightarrow> char" where
  "digit_char d = ''0123456789'' ! d"

function str_nat :: "nat \<Rightarrow> string" where
  "str_nat n = (if n < 10 then [digit_char n] else str_nat (n div 10) @ [digit_char (n mod 10)])"
  by pat_completeness auto
termination
  by (relation "measure id") auto

declare str_nat.simps [simp del]

text \<open>\<^verbatim>\<open>str(i)\<close> for a Python integer.\<close>

definition str_int :: "int \<Rightarrow> string" where
  "str_int i = (if i < 0 then CHR ''-'' # str_nat (nat (- i)) else str_nat (nat i))"

text \<open>\<^verbatim>\<open>str(v)\<close>, which is what an f-string field and \<^verbatim>\<open>print\<close> apply to a value.\<close>

fun py_str :: "'s world \<Rightarrow> pyval \<Rightarrow> string" where
  "py_str w PNone = ''None''"
| "py_str w (PBool b) = (if b then ''True'' else ''False'')"
| "py_str w (PInt i) = str_int i"
| "py_str w (PStr s) = s"
| "py_str w v = str_other w v"

text \<open>\<^verbatim>\<open>v[k]\<close> with a string key: a dictionary looks the key up, any other value raises.\<close>

fun subscript :: "pyval \<Rightarrow> string \<Rightarrow> pyerror + pyval" where
  "subscript (PDict kvs) k = (case map_of kvs k of None \<Rightarrow> Inl (KeyError k) | Some v \<Rightarrow> Inr v)"
| "subscript v k = Inl TypeError"

text \<open>
  The items a \<^verbatim>\<open>for\<close> loop takes from a value: a list gives its elements, a dictionary
  its keys, a string its characters; the other values are not iterable.
\<close>

fun py_iter :: "pyval \<Rightarrow> pyerror + pyval list" where
  "py_iter (PList xs) = Inr xs"
| "py_iter (PDict kvs) = Inr (map (\<lambda>kv. PStr (fst kv)) kvs)"
| "py_iter (PStr s) = Inr (map (\<lambda>c. PStr [c]) s)"
| "py_iter v = Inl TypeError"

text \<open>What the terminal shows: each \<^verbatim>\<open>print\<close> ends its text with a newline, a prompt does not.\<close>

fun shown :: "event \<Rightarrow> string" where
  "shown (Printed s) = s @ [CHR 10]"
| "shown (Asked p a) = p"
| "shown e = []"

definition stdout_of :: "event list \<Rightarrow> string" where
  "stdout_of tr = concat (map shown tr)"

section \<open>Request factory\<close>

definition BASE_URL :: string where
  "BASE_URL = ''http://localhost:5000/''"

datatype request =
    GetRequest string
  | PostRequest string pyval
  | PatchRequest string pyval
  | DeleteRequest string

text \<open>An unknown method falls through every branch: the factory returns \<^verbatim>\<open>None\<close>.\<close>

definition create_request :: "string \<Rightarrow> string \<Rightarrow> pyval \<Rightarrow> request option" where
  "create_request u m data =
     (if m = ''GET'' then Some (GetRequest u)
      else if m = ''POST'' then Some (PostRequest u data)
      else if m = ''PATCH'' then Some (PatchRequest u data)
      else if m = ''DELETE'' then Some (DeleteRequest u)
      else None)"

text \<open>The transport call each class's \<^verbatim>\<open>send\<close> makes.\<close>

fun request_call :: "request \<Rightarrow> http_call" where
  "request_call (GetRequest u) = \<lparr>meth = ''GET'', url = u, json = PNone\<rparr>"
| "request_call (PostRequest u d) = \<lparr>meth = ''POST'', url = u, json = d\<rparr>"
| "request_call (PatchRequest u d) = \<lparr>meth = ''PATCH'', url = u, json = d\<rparr>"
| "request_call (DeleteRequest u) = \<lparr>meth = ''DELETE'', url = u, json = PNone\<rparr>"

definition send :: "'s world \<Rightarrow> 's \<Rightarrow> request \<Rightarrow> (pyerror + response) \<times> 's" where
  "send w s r = transport w s (request_call r)"

text \<open>
  \<^verbatim>\<open>Response.ok\<close> of the requests library: true unless \<^verbatim>\<open>raise_for_status\<close> would
  raise, which it does for the client and server error codes 400 to 599.
\<close>

definition ok :: "response \<Rightarrow> bool" where
  "ok r = (\<not> (400 \<le> status_code r \<and> status_code r < 600))"

section \<open>Runs\<close>

text \<open>
  A run is what a piece of code did and how it ended: its events in order, and the
  exception that left it, if one did.
\<close>

type_synonym run = "event list \<times> pyerror option"

text \<open>Two statements in sequence: the second runs only when the first returns.\<close>

definition then_run :: "run \<Rightarrow> run \<Rightarrow> run" where
  "then_run a b =
     (case a of
        (t1, Some e) \<Rightarrow> (t1, Some e)
      | (t1, None) \<Rightarrow> (case b of (t2, r) \<Rightarrow> (t1 @ t2, r)))"

definition print :: "string \<Rightarrow> run" where
  "print s = ([Printed s], None)"

definition raise :: "pyerror \<Rightarrow> run" where
  "raise e = ([], Some e)"

text \<open>A \<^verbatim>\<open>for\<close> statement over the items already taken from the iterable.\<close>

fun for_loop :: "('a \<Rightarrow> run) \<Rightarrow> 'a list \<Rightarrow> run" where
  "for_loop body [] = ([], None)"
| "for_loop body (x # xs) = then_run (body x) (for_loop body xs)"

section \<open>Adapters\<close>

definition CategoryAdapter_display :: "'s world \<Rightarrow> pyval \<Rightarrow> run" where
  "CategoryAdapter_display w category =
     (case subscript category ''title'' of
        Inl e \<Rightarrow> raise e
      | Inr title \<Rightarrow>
          (case subscript category ''id'' of
             Inl e \<Rightarrow> raise e
           | Inr ident \<Rightarrow>
               then_run (print (py_str w title @ '' (ID: '' @ py_str w ident @ '')''))
                 (case subscript category ''description'' of
                    Inl e \<Rightarrow> raise e
                  | Inr description \<Rightarrow> print (py_str w description))))"

definition ProductAdapter_display :: "'s world \<Rightarrow> pyval \<Rightarrow> run" where
  "ProductAdapter_display w product =
     (case subscript product ''name'' of
        Inl e \<Rightarrow> raise e
      | Inr name \<Rightarrow>
          (case subscript product ''id'' of
             Inl e \<Rightarrow> raise e
           | Inr ident \<Rightarrow>
               (case subscript product ''price'' of
                  Inl e \<Rightarrow> raise e
                | Inr price \<Rightarrow>
                    then_run
                      (print (py_str w name @ '' (ID: '' @ py_str w ident @ '', Price: ''
                         @ py_str w price @ '')''))
                      (case subscript product ''description'' of
                         Inl e \<Rightarrow> raise e
                       | Inr description \<Rightarrow> print (py_str w description)))))"

section \<open>Observer\<close>

text \<open>
  The listeners are \<^verbatim>\<open>CategoryObserver\<close> objects. The class defines no equality, so
  \<^verbatim>\<open>list.remove\<close> compares object identities: a listener is its address.
\<close>

definition CategoryObserver_update :: "'s world \<Rightarrow> pyval \<Rightarrow> run" where
  "CategoryObserver_update w category =
     (case subscript category ''title'' of
        Inl e \<Rightarrow> raise e
      | Inr title \<Rightarrow> print (''Category updated: '' @ py_str w title))"

record ObservableCategory =
  observers :: "nat list"

definition ObservableCategory_init :: ObservableCategory where
  "ObservableCategory_init = \<lparr>observers = []\<rparr>"

definition attach :: "ObservableCategory \<Rightarrow> nat \<Rightarrow> ObservableCategory" where
  "attach oc observer = oc\<lparr>observers := observers oc @ [observer]\<rparr>"

text \<open>\<^verbatim>\<open>list.remove(x)\<close>: scan from the front, drop the first equal item, raise if none.\<close>

fun list_remove :: "'a list \<Rightarrow> 'a \<Rightarrow> pyerror + 'a list" where
  "list_remove [] x = Inl ValueError"
| "list_remove (y # ys) x =
     (if y = x then Inr ys
      else (case list_remove ys x of Inl e \<Rightarrow> Inl e | Inr zs \<Rightarrow> Inr (y # zs)))"

definition detach :: "ObservableCategory \<Rightarrow> nat \<Rightarrow> pyerror + ObservableCategory" where
  "detach oc observer =
     (case list_remove (observers oc) observer of
        Inl e \<Rightarrow> Inl e
      | Inr xs \<Rightarrow> Inr (oc\<lparr>observers := xs\<rparr>))"

definition notify :: "'s world \<Rightarrow> ObservableCategory \<Rightarrow> pyval \<Rightarrow> run" where
  "notify w oc category =
     for_loop (\<lambda>observer. then_run ([Updated observer], None) (CategoryObserver_update w category))
       (observers oc)"

section \<open>Catalog operations\<close>

text \<open>
  \<^verbatim>\<open>response = request.send()\<close> followed by the code that handles the response. When the
  factory returned \<^verbatim>\<open>None\<close> the attribute access raises; when the transport raises, the
  exception leaves the operation.
\<close>

definition with_response ::
  "'s world \<Rightarrow> 's \<Rightarrow> request option \<Rightarrow> (response \<Rightarrow> run) \<Rightarrow> run \<times> 's" where
  "with_response w s req handle =
     (case req of
        None \<Rightarrow> (raise AttributeError, s)
      | Some request \<Rightarrow>
          (case send w s request of
             (Inl e, s') \<Rightarrow> (([Sent (request_call request)], Some e), s')
           | (Inr response, s') \<Rightarrow>
               (then_run ([Sent (request_call request)], None) (handle response), s')))"

text \<open>\<^verbatim>\<open>json.loads(response.content)\<close> followed by the code that uses the decoded value.\<close>

definition decode :: "'s world \<Rightarrow> response \<Rightarrow> (pyval \<Rightarrow> run) \<Rightarrow> run" where
  "decode w response use =
     then_run ([Decoded (content response)], None)
       (case json_loads w (content response) of
          Inl e \<Rightarrow> raise e
        | Inr v \<Rightarrow> use v)"

definition iterate :: "pyval \<Rightarrow> (pyval \<Rightarrow> run) \<Rightarrow> run" where
  "iterate v body = (case py_iter v of Inl e \<Rightarrow> raise e | Inr items \<Rightarrow> for_loop body items)"

definition CategoryListStrategy_list_categories ::
  "'s world \<Rightarrow> 's \<Rightarrow> request option \<Rightarrow> run \<times> 's" where
  "CategoryListStrategy_list_categories w s request =
     with_response w s request (\<lambda>response.
       if ok response then
         decode w response (\<lambda>categories.
           iterate categories (\<lambda>category.
             then_run (CategoryAdapter_display w category) (print [])))
       else print (''Error fetching categories: '' @ str_int (status_code response)))"

definition CategoryStrategyContext_list_categories ::
  "'s world \<Rightarrow> 's \<Rightarrow> request option \<Rightarrow> run \<times> 's" where
  "CategoryStrategyContext_list_categories w s strategy_request =
     CategoryListStrategy_list_categories w s strategy_request"

definition list_categories :: "'s world \<Rightarrow> 's \<Rightarrow> run \<times> 's" where
  "list_categories w s =
     (let url = BASE_URL @ ''/categories'';
          request = create_request url ''GET'' PNone
      in CategoryStrategyContext_list_categories w s request)"

definition show_category :: "'s world \<Rightarrow> 's \<Rightarrow> string \<Rightarrow> run \<times> 's" where
  "show_category w s category_id =
     (let url = BASE_URL @ ''/categories/'' @ category_id;
          request = create_request url ''GET'' PNone
      in with_response w s request (\<lambda>response.
           if ok response then
             decode w response (\<lambda>category. CategoryAdapter_display w category)
           else print (''Error fetching category: '' @ str_int (status_code response))))"

definition create_category :: "'s world \<Rightarrow> 's \<Rightarrow> string \<Rightarrow> string \<Rightarrow> run \<times> 's" where
  "create_category w s title description =
     (let url = BASE_URL @ ''/categories'';
          data = PDict [(''title'', PStr title), (''description'', PStr description)];
          request = create_request url ''POST'' data
      in with_response w s request (\<lambda>response.
           if ok response then
             decode w response (\<lambda>category.
               (case subscript category ''id'' of
                  Inl e \<Rightarrow> raise e
                | Inr ident \<Rightarrow> print (''Category created with ID: '' @ py_str w ident)))
           else print (''Error creating category: '' @ str_int (status_code response))))"

definition delete_category :: "'s world \<Rightarrow> 's \<Rightarrow> string \<Rightarrow> run \<times> 's" where
  "delete_category w s category_id =
     (let url = BASE_URL @ ''/categories/'' @ category_id;
          request = create_request url ''DELETE'' PNone
      in with_response w s request (\<lambda>response.
           if ok response then print ''Category deleted''
           else print (''Error deleting category: '' @ str_int (status_code response))))"

definition change_category_title :: "'s world \<Rightarrow> 's \<Rightarrow> string \<Rightarrow> string \<Rightarrow> run \<times> 's" where
  "change_category_title w s category_id new_title =
     (let url = BASE_URL @ ''/categories/'' @ category_id;
          data = PDict [(''title'', PStr new_title)];
          request = create_request url ''PATCH'' data
      in with_response w s request (\<lambda>response.
           if ok response then print ''Category title updated''
           else print (''Error updating category title: '' @ str_int (status_code response))))"

definition create_product ::
  "'s world \<Rightarrow> 's \<Rightarrow> string \<Rightarrow> string \<Rightarrow> pyval \<Rightarrow> string \<Rightarrow> run \<times> 's" where
  "create_product w s category_id name price description =
     (let url = BASE_URL @ ''/categories/'' @ category_id @ ''/products'';
          data = PDict [(''name'', PStr name), (''price'', price),
                        (''description'', PStr description)];
          request = create_request url ''POST'' data
      in with_response w s request (\<lambda>response.
           if ok response then
             decode w response (\<lambda>product.
               (case subscript product ''id'' of
                  Inl e \<Rightarrow> raise e
                | Inr ident \<Rightarrow> print (''Product created with ID: '' @ py_str w ident)))
           else print (''Error creating product: '' @ str_int (status_code response))))"

definition list_products :: "'s world \<Rightarrow> 's \<Rightarrow> string \<Rightarrow> run \<times> 's" where
  "list_products w s category_id =
     (let url = BASE_URL @ ''/categories/'' @ category_id @ ''/products'';
          request = create_request url ''GET'' PNone
      in with_response w s request (\<lambda>response.
           if ok response then
             decode w response (\<lambda>products.
               iterate products (\<lambda>product.
                 then_run (ProductAdapter_display w product) (print [])))
           else print (''Error fetching products: '' @ str_int (status_code response))))"

text \<open>The seven operations as one family, each with the arguments the shell passes.\<close>

datatype operation =
    ListCategories
  | ShowCategory string
  | CreateCategory string string
  | DeleteCategory string
  | ChangeCategoryTitle string string
  | CreateProduct string string pyval string
  | ListProducts string

fun run_operation :: "'s world \<Rightarrow> 's \<Rightarrow> operation \<Rightarrow> run \<times> 's" where
  "run_operation w s ListCategories = list_categories w s"
| "run_operation w s (ShowCategory category_id) = show_category w s category_id"
| "run_operation w s (CreateCategory title description) = create_category w s title description"
| "run_operation w s (DeleteCategory category_id) = delete_category w s category_id"
| "run_operation w s (ChangeCategoryTitle category_id new_title) =
     change_category_title w s category_id new_title"
| "run_operation w s (CreateProduct category_id name price description) =
     create_product w s category_id name price description"
| "run_operation w s (ListProducts category_id) = list_products w s category_id"

section \<open>Interactive shell\<close>

text \<open>How one pass through the loop body ends.\<close>

datatype flow = Continue | Break | Uncaught pyerror

type_synonym 's pass = "event list \<times> flow \<times> 's \<times> string list"

text \<open>
  \<^verbatim>\<open>input(prompt)\<close> followed by the rest of the branch. Standard input is the list of
  lines still to come; at its end \<^verbatim>\<open>input\<close> raises.
\<close>

definition input ::
  "string \<Rightarrow> 's \<Rightarrow> string list \<Rightarrow> (string \<Rightarrow> string list \<Rightarrow> 's pass) \<Rightarrow> 's pass" where
  "input prompt s ins rest =
     (case ins of
        [] \<Rightarrow> ([Asked prompt None], Uncaught EOFError, s, [])
      | line # ins' \<Rightarrow>
          (case rest line ins' of (tr, r) \<Rightarrow> (Asked prompt (Some line) # tr, r)))"

text \<open>A call of an operation as the last statement of a branch.\<close>

definition call :: "run \<times> 's \<Rightarrow> string list \<Rightarrow> 's pass" where
  "call r ins =
     (case r of
        ((tr, None), s') \<Rightarrow> (tr, Continue, s', ins)
      | ((tr, Some e), s') \<Rightarrow> (tr, Uncaught e, s', ins))"

definition menu :: "event list" where
  "menu = map Printed
     [''1. List categories'', ''2. Show category details'', ''3. Create a category'',
      ''4. Delete a category'', ''5. Change category title'', ''6. Create a product'',
      ''7. List products in a category'', ''0. Exit'']"

text \<open>The \<^verbatim>\<open>if\<close>/\<^verbatim>\<open>elif\<close> chain on the selection.\<close>

definition dispatch :: "'s world \<Rightarrow> 's \<Rightarrow> string \<Rightarrow> string list \<Rightarrow> 's pass" where
  "dispatch w s choice ins =
     (if choice = ''1'' then call (list_categories w s) ins
      else if choice = ''2'' then
        input ''Enter category ID: '' s ins (\<lambda>category_id ins.
          call (show_category w s category_id) ins)
      else if choice = ''3'' then
        input ''Enter category title: '' s ins (\<lambda>title ins.
          input ''Enter category description: '' s ins (\<lambda>description ins.
            call (create_category w s title description) ins))
      else if choice = ''4'' then
        input ''Enter category ID: '' s ins (\<lambda>category_id ins.
          call (delete_category w s category_id) ins)
      else if choice = ''5'' then
        input ''Enter category ID: '' s ins (\<lambda>category_id ins.
          input ''Enter new category title: '' s ins (\<lambda>new_title ins.
            call (change_category_title w s category_id new_title) ins))
      else if choice = ''6'' then
        input ''Enter category ID: '' s ins (\<lambda>category_id ins.
          input ''Enter product name: '' s ins (\<lambda>name ins.
            input ''Enter product price: '' s ins (\<lambda>price_text ins.
              (case py_float w price_text of
                 Inl e \<Rightarrow> ([], Uncaught e, s, ins)
               | Inr price \<Rightarrow>
                   input ''Enter product description: '' s ins (\<lambda>description ins.
                     call (create_product w s category_id name price description) ins)))))
      else if choice = ''7'' then
        input ''Enter category ID: '' s ins (\<lambda>category_id ins.
          call (list_products w s category_id) ins)
      else if choice = ''0'' then ([], Break, s, ins)
      else ([Printed ''Invalid choice. Please try again.''], Continue, s, ins))"

text \<open>One pass through the body of \<^verbatim>\<open>while True\<close>: the menu, the selection, its branch.\<close>

definition loop_body :: "'s world \<Rightarrow> 's \<Rightarrow> string list \<Rightarrow> 's pass" where
  "loop_body w s ins =
     (case input ''Enter your choice: '' s ins (dispatch w s) of (tr, r) \<Rightarrow> (menu @ tr, r))"

lemma input_shorter:
  assumes "input prompt s ins rest = (tr, fl, s', ins')"
    and "\<And>l rs tr fl s' ins'. rest l rs = (tr, fl, s', ins') \<Longrightarrow> length ins' \<le> length rs"
  shows "length ins' \<le> length ins - (if fl = Continue then 1 else 0)"
proof (cases ins)
  case Nil
  with assms(1) show ?thesis by (simp add: input_def)
next
  case (Cons l rs)
  obtain tr0 where "rest l rs = (tr0, fl, s', ins')"
    using assms(1) Cons by (auto simp: input_def split: prod.splits)
  from assms(2)[OF this] Cons show ?thesis by simp
qed

lemma call_same: "call r ins = (tr, fl, s', ins') \<Longrightarrow> ins' = ins"
  by (auto simp: call_def split: prod.splits option.splits)

lemma input_le:
  assumes "input prompt s ins rest = (tr, fl, s', ins')"
    and "\<And>l rs tr fl s' ins'. rest l rs = (tr, fl, s', ins') \<Longrightarrow> length ins' \<le> length rs"
  shows "length ins' \<le> length ins"
proof -
  have "length ins' \<le> length ins - (if fl = Continue then 1 else 0)"
    by (rule input_shorter[OF assms(1)]) (rule assms(2))
  then show ?thesis by simp
qed

lemma dispatch_le:
  assumes "dispatch w s choice ins = (tr, fl, s', ins')"
  shows "length ins' \<le> length ins"
  using assms unfolding dispatch_def
  by (auto split: if_splits sum.splits elim!: input_le dest!: call_same)

lemma loop_body_shorter:
  assumes "loop_body w s ins = (tr, Continue, s', ins')"
  shows "length ins' < length ins"
proof -
  from assms obtain tr0 where
    "input ''Enter your choice: '' s ins (dispatch w s) = (tr0, Continue, s', ins')"
    by (auto simp: loop_body_def split: prod.splits)
  then have "length ins' \<le> length ins - (if Continue = Continue then 1 else 0)"
    by (rule input_shorter) (rule dispatch_le)
  then have "length ins' \<le> length ins - 1" by simp
  moreover have "ins \<noteq> []" using assms by (auto simp: loop_body_def input_def)
  ultimately show ?thesis by (cases ins) auto
qed

text \<open>
  \<^verbatim>\<open>while True\<close>: the loop is left by \<^verbatim>\<open>break\<close> (the result carries no exception) or
  by an exception no one catches. Every pass reads a line, so on a finite input the loop
  ends.
\<close>

function main_loop ::
  "'s world \<Rightarrow> 's \<Rightarrow> string list \<Rightarrow> event list \<times> pyerror option \<times> 's \<times> string list" where
  "main_loop w s ins =
     (case loop_body w s ins of
        (tr, Continue, s', ins') \<Rightarrow>
          (case main_loop w s' ins' of (tr', r) \<Rightarrow> (tr @ tr', r))
      | (tr, Break, s', ins') \<Rightarrow> (tr, None, s', ins')
      | (tr, Uncaught e, s', ins') \<Rightarrow> (tr, Some e, s', ins'))"
  by pat_completeness auto
termination
  by (relation "measure (\<lambda>(w, s, ins). length ins)") (auto dest: loop_body_shorter[OF sym])

declare main_loop.simps [simp del]

section \<open>The operations table of the specification\<close>

text \<open>
  The table of section 4.4, written down from the specification and not from the code:
  method, path relative to the base URL, and payload of every operation.
\<close>

fun table_method :: "operation \<Rightarrow> string" where
  "table_method ListCategories = ''GET''"
| "table_method (ShowCategory i) = ''GET''"
| "table_method (CreateCategory t d) = ''POST''"
| "table_method (DeleteCategory i) = ''DELETE''"
| "table_method (ChangeCategoryTitle i t) = ''PATCH''"
| "table_method (CreateProduct i n p d) = ''POST''"
| "table_method (ListProducts i) = ''GET''"

fun table_path :: "operation \<Rightarrow> string" where
  "table_path ListCategories = ''/categories''"
| "table_path (ShowCategory i) = ''/categories/'' @ i"
| "table_path (CreateCategory t d) = ''/categories''"
| "table_path (DeleteCategory i) = ''/categories/'' @ i"
| "table_path (ChangeCategoryTitle i t) = ''/categories/'' @ i"
| "table_path (CreateProduct i n p d) = ''/categories/'' @ i @ ''/products''"
| "table_path (ListProducts i) = ''/categories/'' @ i @ ''/products''"

fun table_payload :: "operation \<Rightarrow> pyval" where
  "table_payload (CreateCategory t d) = PDict [(''title'', PStr t), (''description'', PStr d)]"
| "table_payload (ChangeCategoryTitle i t) = PDict [(''title'', PStr t)]"
| "table_payload (CreateProduct i n p d) =
     PDict [(''name'', PStr n), (''price'', p), (''description'', PStr d)]"
| "table_payload x = PNone"

definition table_call :: "operation \<Rightarrow> http_call" where
  "table_call x = \<lparr>meth = table_method x, url = BASE_URL @ table_path x, json = table_payload x\<rparr>"

section \<open>Observations on runs\<close>

text \<open>The text each operation puts before the status code of a failure.\<close>

fun error_label :: "operation \<Rightarrow> string" where
  "error_label ListCategories = ''Error fetching categories: ''"
| "error_label (ShowCategory i) = ''Error fetching category: ''"
| "error_label (CreateCategory t d) = ''Error creating category: ''"
| "error_label (DeleteCategory i) = ''Error deleting category: ''"
| "error_label (ChangeCategoryTitle i t) = ''Error updating category title: ''"
| "error_label (CreateProduct i n p d) = ''Error creating product: ''"
| "error_label (ListProducts i) = ''Error fetching products: ''"

text \<open>
  The first thing the success branch of an operation does: it decodes the body, or, for
  the two operations that read no body, prints the confirmation.
\<close>

fun success_mark :: "operation \<Rightarrow> response \<Rightarrow> event" where
  "success_mark (DeleteCategory i) r = Printed ''Category deleted''"
| "success_mark (ChangeCategoryTitle i t) r = Printed ''Category title updated''"
| "success_mark x r = Decoded (content r)"

definition has_field :: "pyval \<Rightarrow> string \<Rightarrow> bool" where
  "has_field v k = (case subscript v k of Inl e \<Rightarrow> False | Inr x \<Rightarrow> True)"

definition is_product_record :: "pyval \<Rightarrow> bool" where
  "is_product_record p =
     (has_field p ''name'' \<and> has_field p ''id'' \<and> has_field p ''price''
      \<and> has_field p ''description'')"



text \<open>\<open>contains t x\<close>: the text \<open>x\<close> occurs in \<open>t\<close> as a contiguous piece.\<close>

fun starts_with :: "string \<Rightarrow> string \<Rightarrow> bool" where
  "starts_with t [] = True"
| "starts_with [] (x # xs) = False"
| "starts_with (c # t) (x # xs) = (c = x \<and> starts_with t xs)"

fun contains :: "string \<Rightarrow> string \<Rightarrow> bool" where
  "contains [] x = (x = [])"
| "contains (c # t) x = (starts_with (c # t) x \<or> contains t x)"

text \<open>The listeners whose \<^verbatim>\<open>update\<close> a run entered, in order.\<close>

fun invoked :: "event list \<Rightarrow> nat list" where
  "invoked [] = []"
| "invoked (Updated a # tr) = a # invoked tr"
| "invoked (e # tr) = invoked tr"

section \<open>Example worlds\<close>

text \<open>
  \<^verbatim>\<open>float()\<close> on ASCII text, for the example worlds: blanks around the text are
  dropped; an underscore may stand only between two digits; what is left is an optional
  sign and then \<^verbatim>\<open>inf\<close>, \<^verbatim>\<open>infinity\<close> or \<^verbatim>\<open>nan\<close> in any case, or digits with an
  optional point (at least one digit before or after it) and an optional exponent. Any
  other text raises \<^verbatim>\<open>ValueError\<close>.
\<close>

definition is_space :: "char \<Rightarrow> bool" where
  "is_space c =
     (c \<in> set [CHR 9, CHR 10, CHR 11, CHR 12, CHR 13, CHR 28, CHR 29, CHR 30, CHR 31, CHR 32])"

definition is_digit :: "char \<Rightarrow> bool" where
  "is_digit c = (c \<in> set ''0123456789'')"

definition strip :: "string \<Rightarrow> string" where
  "strip t = rev (dropWhile is_space (rev (dropWhile is_space t)))"

definition lower :: "char \<Rightarrow> char" where
  "lower c =
     (case map_of (zip ''ABCDEFGHIJKLMNOPQRSTUVWXYZ'' ''abcdefghijklmnopqrstuvwxyz'') c of
        None \<Rightarrow> c
      | Some l \<Rightarrow> l)"

fun underscores_ok :: "char \<Rightarrow> string \<Rightarrow> bool" where
  "underscores_ok prev [] = (prev \<noteq> CHR ''_'')"
| "underscores_ok prev (c # cs) =
     (if c = CHR ''_'' then is_digit prev \<and> underscores_ok c cs
      else (prev \<noteq> CHR ''_'' \<or> is_digit c) \<and> underscores_ok c cs)"

definition drop_sign :: "string \<Rightarrow> string" where
  "drop_sign t =
     (case t of
        [] \<Rightarrow> []
      | c # cs \<Rightarrow> if c = CHR ''+'' \<or> c = CHR ''-'' then cs else t)"

definition is_exponent :: "string \<Rightarrow> bool" where
  "is_exponent t =
     (case t of
        [] \<Rightarrow> True
      | c # cs \<Rightarrow>
          lower c = CHR ''e'' \<and> drop_sign cs \<noteq> [] \<and> list_all is_digit (drop_sign cs))"

definition is_decimal :: "string \<Rightarrow> bool" where
  "is_decimal t =
     (let whole = takeWhile is_digit t;
          after_whole = dropWhile is_digit t
      in (case after_whole of
            [] \<Rightarrow> whole \<noteq> []
          | c # cs \<Rightarrow>
              if c = CHR ''.''
              then (whole \<noteq> [] \<or> takeWhile is_digit cs \<noteq> [])
                     \<and> is_exponent (dropWhile is_digit cs)
              else whole \<noteq> [] \<and> is_exponent after_whole))"

definition ascii_float :: "string \<Rightarrow> pyerror + pyval" where
  "ascii_float t =
     (let body = drop_sign (filter (\<lambda>c. c \<noteq> CHR ''_'') (strip t))
      in if underscores_ok (CHR 0x00) (strip t)
            \<and> (map lower body \<in> set [''inf'', ''infinity'', ''nan''] \<or> is_decimal body)
         then Inr (PFloat t) else Inl ValueError)"

text \<open>
  A server that answers every call with the same response and counts the calls, a decoder
  that yields one given value, the \<^verbatim>\<open>float()\<close> above, and one text for every value
  whose \<^verbatim>\<open>str()\<close> is left open.
\<close>

definition example_world :: "response \<Rightarrow> pyerror + pyval \<Rightarrow> nat world" where
  "example_world r v =
     \<lparr>transport = (\<lambda>s c. (Inr r, Suc s)),
      json_loads = (\<lambda>b. v),
      py_float = ascii_float,
      str_other = (\<lambda>x. ''<value>'')\<rparr>"

text \<open>Two product records.\<close>

definition pen :: pyval where
  "pen = PDict [(''id'', PInt 1), (''name'', PStr ''Pen''), (''price'', PInt 2),
                (''description'', PStr ''Blue'')]"

definition ink :: pyval where
  "ink = PDict [(''id'', PInt 2), (''name'', PStr ''Ink''), (''price'', PInt 3),
                (''description'', PStr ''Black'')]"

section \<open>Request factory: method and payload\<close>

text \<open>
  C3. For each of the four methods the factory returns a request whose transport call has
  that method and the given URL; the call carries a payload exactly when the method is
  POST or PATCH and a payload was supplied, and for GET and DELETE a supplied payload is
  dropped.
\<close>

theorem create_request_builds:
  assumes "m \<in> {''GET'', ''POST'', ''PATCH'', ''DELETE''}"
  shows "\<exists>r. create_request u m data = Some r
           \<and> request_call r =
               \<lparr>meth = m, url = u,
                json = (if m \<in> {''POST'', ''PATCH''} then data else PNone)\<rparr>
           \<and> (json (request_call r) \<noteq> PNone \<longleftrightarrow> m \<in> {''POST'', ''PATCH''} \<and> data \<noteq> PNone)
           \<and> send w s r = transport w s (request_call r)"
  using assms by (auto simp: create_request_def send_def)

theorem create_request_builds_witness:
  "''PATCH'' \<in> {''GET'', ''POST'', ''PATCH'', ''DELETE''}
   \<and> create_request ''u'' ''PATCH'' (PDict [(''title'', PStr ''T'')])
       = Some (PatchRequest ''u'' (PDict [(''title'', PStr ''T'')]))
   \<and> create_request ''u'' ''GET'' (PDict [(''title'', PStr ''T'')]) = Some (GetRequest ''u'')
   \<and> json (request_call (GetRequest ''u'')) = PNone"
  using create_request_builds [of "''PATCH''" "''u''" "PDict [(''title'', PStr ''T'')]"]
  by (simp add: create_request_def)

section \<open>Observation channel: detach\<close>

lemma list_remove_absent: "x \<notin> set xs \<Longrightarrow> list_remove xs x = Inl ValueError"
  by (induction xs) auto

lemma list_remove_present:
  "x \<in> set xs \<Longrightarrow>
   \<exists>ys zs. xs = ys @ x # zs \<and> x \<notin> set ys \<and> list_remove xs x = Inr (ys @ zs)"
proof (induction xs)
  case Nil
  then show ?case by simp
next
  case (Cons y xs)
  show ?case
  proof (cases "y = x")
    case True
    then have "y # xs = [] @ x # xs \<and> x \<notin> set [] \<and> list_remove (y # xs) x = Inr ([] @ xs)"
      by simp
    then show ?thesis by blast
  next
    case False
    with Cons.prems have "x \<in> set xs" by simp
    from Cons.IH[OF this] obtain ys zs where
      "xs = ys @ x # zs" "x \<notin> set ys" "list_remove xs x = Inr (ys @ zs)" by blast
    with False have
      "y # xs = (y # ys) @ x # zs \<and> x \<notin> set (y # ys)
       \<and> list_remove (y # xs) x = Inr ((y # ys) @ zs)"
      by simp
    then show ?thesis by blast
  qed
qed

text \<open>
  C10. Detaching a listener that is not attached raises (the \<^verbatim>\<open>ValueError\<close> of
  \<^verbatim>\<open>list.remove\<close>); detaching an attached one removes its first occurrence and keeps
  every other entry in place.
\<close>

theorem detach_raises_or_removes_first:
  "(l \<notin> set (observers oc) \<longrightarrow> detach oc l = Inl ValueError)
   \<and> (l \<in> set (observers oc) \<longrightarrow>
        (\<exists>ys zs. observers oc = ys @ l # zs \<and> l \<notin> set ys
           \<and> detach oc l = Inr (oc\<lparr>observers := ys @ zs\<rparr>)))"
proof (intro conjI impI)
  assume "l \<notin> set (observers oc)"
  then show "detach oc l = Inl ValueError"
    by (simp add: detach_def list_remove_absent)
next
  assume "l \<in> set (observers oc)"
  from list_remove_present[OF this] obtain ys zs where
    "observers oc = ys @ l # zs" "l \<notin> set ys" "list_remove (observers oc) l = Inr (ys @ zs)"
    by blast
  then show "\<exists>ys zs. observers oc = ys @ l # zs \<and> l \<notin> set ys
           \<and> detach oc l = Inr (oc\<lparr>observers := ys @ zs\<rparr>)"
    by (auto simp: detach_def)
qed

theorem detach_raises_or_removes_first_witness:
  "detach \<lparr>observers = [1, 2, 1, 3]\<rparr> 4 = Inl ValueError
   \<and> detach \<lparr>observers = [1, 2, 1, 3]\<rparr> 1 = Inr \<lparr>observers = [2, 1, 3]\<rparr>
   \<and> (4::nat) \<notin> set [1, 2, 1, 3] \<and> (1::nat) \<in> set [1, 2, 1, 3]"
  using detach_raises_or_removes_first [of 4 "\<lparr>observers = [1, 2, 1, 3]\<rparr>"]
    detach_raises_or_removes_first [of 1 "\<lparr>observers = [1, 2, 1, 3]\<rparr>"]
  by (simp add: detach_def)

section \<open>Catalog operations: request, status, decoding\<close>

lemmas operation_defs =
  list_categories_def CategoryStrategyContext_list_categories_def
  CategoryListStrategy_list_categories_def show_category_def create_category_def
  delete_category_def change_category_title_def create_product_def list_products_def

lemmas run_defs = with_response_def send_def create_request_def then_run_def print_def
  raise_def decode_def table_call_def Let_def

lemma operation_fails:
  assumes "transport w s (table_call x) = (Inr r, s')" and "\<not> ok r"
  shows "run_operation w s x =
           (([Sent (table_call x), Printed (error_label x @ str_int (status_code r))], None), s')"
  using assms by (cases x) (simp_all add: operation_defs run_defs)

lemma operation_succeeds:
  assumes "transport w s (table_call x) = (Inr r, s')" and "ok r"
  shows "\<exists>tr e. run_operation w s x = ((Sent (table_call x) # success_mark x r # tr, e), s')"
  using assms by (cases x) (simp_all add: operation_defs run_defs split: sum.splits prod.splits option.splits)

lemma operation_sends:
  "\<exists>tr e s'. run_operation w s x = ((Sent (table_call x) # tr, e), s')"
  by (cases x) (simp_all add: operation_defs run_defs split: sum.splits prod.splits option.splits)

lemma then_run_events:
  "set (fst (then_run a b)) \<subseteq> set (fst a) \<union> set (fst b)"
  by (auto simp: then_run_def split: prod.splits option.splits)

lemma category_display_no_decode: "Decoded b \<notin> set (fst (CategoryAdapter_display w c))"
  by (simp add: CategoryAdapter_display_def then_run_def print_def raise_def split: sum.splits)

lemma product_display_no_decode: "Decoded b \<notin> set (fst (ProductAdapter_display w c))"
  by (simp add: ProductAdapter_display_def then_run_def print_def raise_def split: sum.splits)

lemma for_loop_no_decode:
  assumes "\<And>x. Decoded b \<notin> set (fst (body x))"
  shows "Decoded b \<notin> set (fst (for_loop body xs))"
proof (induction xs)
  case Nil
  then show ?case by simp
next
  case (Cons x xs)
  have "set (fst (then_run (body x) (for_loop body xs)))
          \<subseteq> set (fst (body x)) \<union> set (fst (for_loop body xs))"
    by (rule then_run_events)
  with assms[of x] Cons.IH show ?case by auto
qed

lemma iterate_no_decode:
  assumes "\<And>x. Decoded b \<notin> set (fst (body x))"
  shows "Decoded b \<notin> set (fst (iterate v body))"
  using for_loop_no_decode[of b body, OF assms]
  by (simp add: iterate_def raise_def split: sum.splits)

lemma iterate_category_no_decode:
  "Decoded b \<notin> set (fst (iterate v (\<lambda>category.
      then_run (CategoryAdapter_display w category) (print []))))"
proof (rule iterate_no_decode)
  fix x
  have "set (fst (then_run (CategoryAdapter_display w x) (print [])))
          \<subseteq> set (fst (CategoryAdapter_display w x)) \<union> set (fst (print []))"
    by (rule then_run_events)
  then show "Decoded b \<notin> set (fst (then_run (CategoryAdapter_display w x) (print [])))"
    using category_display_no_decode[of b w x] by (auto simp: print_def)
qed

lemma iterate_product_no_decode:
  "Decoded b \<notin> set (fst (iterate v (\<lambda>product.
      then_run (ProductAdapter_display w product) (print []))))"
proof (rule iterate_no_decode)
  fix x
  have "set (fst (then_run (ProductAdapter_display w x) (print [])))
          \<subseteq> set (fst (ProductAdapter_display w x)) \<union> set (fst (print []))"
    by (rule then_run_events)
  then show "Decoded b \<notin> set (fst (then_run (ProductAdapter_display w x) (print [])))"
    using product_display_no_decode[of b w x] by (auto simp: print_def)
qed

lemma decode_events:
  assumes "Decoded b \<in> set (fst (decode w r use))"
    and "\<And>v. Decoded b \<notin> set (fst (use v))"
  shows "b = content r"
proof (cases "json_loads w (content r)")
  case (Inl e)
  with assms(1) show ?thesis by (simp add: decode_def then_run_def raise_def)
next
  case (Inr v)
  obtain tr e where u: "use v = (tr, e)" by (cases "use v")
  with assms(2)[of v] have "Decoded b \<notin> set tr" by simp
  with assms(1) Inr u show ?thesis by (simp add: decode_def then_run_def)
qed

lemma handler_decoded:
  assumes "Decoded b \<in> set (fst (if ok r then decode w r use else print m))"
    and "\<And>v. Decoded b \<notin> set (fst (use v))"
  shows "ok r \<and> b = content r"
proof (cases "ok r")
  case True
  with assms(1) have "Decoded b \<in> set (fst (decode w r use))" by simp
  from decode_events[OF this assms(2)] True show ?thesis by simp
next
  case False
  with assms(1) show ?thesis by (simp add: print_def)
qed

lemma with_response_decoded:
  assumes "Decoded b \<in> set (fst (fst (with_response w s (Some q) handle)))"
  shows "\<exists>r s'. transport w s (request_call q) = (Inr r, s')
           \<and> Decoded b \<in> set (fst (handle r))"
  using assms
  by (auto simp: with_response_def send_def then_run_def raise_def
      split: sum.splits prod.splits option.splits)

lemma report_id_no_decode:
  "Decoded b \<notin> set (fst (case subscript v k of Inl e \<Rightarrow> raise e | Inr i \<Rightarrow> print (m i)))"
  by (simp add: raise_def print_def split: sum.splits)

lemma operation_decodes:
  assumes "Decoded b \<in> set (fst (fst (run_operation w s x)))"
  shows "\<exists>r s'. transport w s (table_call x) = (Inr r, s') \<and> ok r \<and> b = content r"
proof (cases x)
  case ListCategories
  with assms obtain r s' where
    t: "transport w s (table_call x) = (Inr r, s')" and
    d: "Decoded b \<in> set (fst (if ok r then decode w r (\<lambda>categories.
           iterate categories (\<lambda>category.
             then_run (CategoryAdapter_display w category) (print [])))
         else print (''Error fetching categories: '' @ str_int (status_code r))))"
    by (auto simp: operation_defs Let_def create_request_def table_call_def
        dest!: with_response_decoded)
  from handler_decoded[OF d iterate_category_no_decode] t show ?thesis by blast
next
  case (ShowCategory i)
  with assms obtain r s' where
    t: "transport w s (table_call x) = (Inr r, s')" and
    d: "Decoded b \<in> set (fst (if ok r then decode w r (\<lambda>category.
           CategoryAdapter_display w category)
         else print (''Error fetching category: '' @ str_int (status_code r))))"
    by (auto simp: operation_defs Let_def create_request_def table_call_def
        dest!: with_response_decoded)
  from handler_decoded[OF d category_display_no_decode] t show ?thesis by blast
next
  case (CreateCategory title description)
  with assms obtain r s' where
    t: "transport w s (table_call x) = (Inr r, s')" and
    d: "Decoded b \<in> set (fst (if ok r then decode w r (\<lambda>category.
           (case subscript category ''id'' of
              Inl e \<Rightarrow> raise e
            | Inr ident \<Rightarrow> print (''Category created with ID: '' @ py_str w ident)))
         else print (''Error creating category: '' @ str_int (status_code r))))"
    by (auto simp: operation_defs Let_def create_request_def table_call_def
        dest!: with_response_decoded)
  from handler_decoded[OF d report_id_no_decode] t show ?thesis by blast
next
  case (DeleteCategory i)
  with assms show ?thesis
    by (auto simp: operation_defs Let_def create_request_def print_def
        dest!: with_response_decoded split: if_splits)
next
  case (ChangeCategoryTitle i t)
  with assms show ?thesis
    by (auto simp: operation_defs Let_def create_request_def print_def
        dest!: with_response_decoded split: if_splits)
next
  case (CreateProduct i n p d)
  with assms obtain r s' where
    t: "transport w s (table_call x) = (Inr r, s')" and
    d: "Decoded b \<in> set (fst (if ok r then decode w r (\<lambda>product.
           (case subscript product ''id'' of
              Inl e \<Rightarrow> raise e
            | Inr ident \<Rightarrow> print (''Product created with ID: '' @ py_str w ident)))
         else print (''Error creating product: '' @ str_int (status_code r))))"
    by (auto simp: operation_defs Let_def create_request_def table_call_def
        dest!: with_response_decoded)
  from handler_decoded[OF d report_id_no_decode] t show ?thesis by blast
next
  case (ListProducts i)
  with assms obtain r s' where
    t: "transport w s (table_call x) = (Inr r, s')" and
    d: "Decoded b \<in> set (fst (if ok r then decode w r (\<lambda>products.
           iterate products (\<lambda>product.
             then_run (ProductAdapter_display w product) (print [])))
         else print (''Error fetching products: '' @ str_int (status_code r))))"
    by (auto simp: operation_defs Let_def create_request_def table_call_def
        dest!: with_response_decoded)
  from handler_decoded[OF d iterate_product_no_decode] t show ?thesis by blast
qed

lemma str_int_404: "str_int 404 = ''404''"
  by (simp add: str_int_def str_nat.simps digit_char_def)

lemma str_int_7: "str_int 7 = ''7''"
  by (simp add: str_int_def str_nat.simps digit_char_def)

text \<open>
  C1, amended. Given the response the transport returns, every operation takes its success
  branch exactly when the status code is outside 400 to 599 (which is what
  \<^verbatim>\<open>Response.ok\<close> tests, so that 1xx and 3xx codes count as success as well as 2xx);
  for a code from 400 to 599 it sends the request and prints its error text followed by
  the decimal text of that code, and does nothing else.
\<close>

theorem status_classification:
  assumes "transport w s (table_call x) = (Inr r, s')"
  shows "((fst (fst (run_operation w s x)) ! 1 = success_mark x r)
            \<longleftrightarrow> \<not> (400 \<le> status_code r \<and> status_code r < 600))
       \<and> (400 \<le> status_code r \<and> status_code r < 600 \<longrightarrow>
            run_operation w s x =
              (([Sent (table_call x), Printed (error_label x @ str_int (status_code r))], None),
               s'))"
proof (cases "ok r")
  case True
  from operation_succeeds[OF assms True] show ?thesis using True by (auto simp: ok_def)
next
  case False
  have "Printed (error_label x @ str_int (status_code r)) \<noteq> success_mark x r"
    by (cases x) simp_all
  with operation_fails[OF assms False] False show ?thesis by (simp add: ok_def)
qed

theorem status_classification_witness:
  "run_operation (example_world \<lparr>status_code = 404, content = ''Not Found''\<rparr> (Inl JSONDecodeError)) 0
     (ShowCategory ''5'')
   = (([Sent \<lparr>meth = ''GET'', url = ''http://localhost:5000//categories/5'', json = PNone\<rparr>,
        Printed ''Error fetching category: 404''], None), 1)
   \<and> fst (fst (run_operation
        (example_world \<lparr>status_code = 204, content = []\<rparr> (Inl JSONDecodeError)) 0
        (DeleteCategory ''5''))) ! 1
     = Printed ''Category deleted''"
  using status_classification
    [of "example_world \<lparr>status_code = 404, content = ''Not Found''\<rparr> (Inl JSONDecodeError)" 0
      "ShowCategory ''5''" "\<lparr>status_code = 404, content = ''Not Found''\<rparr>" 1]
    status_classification
    [of "example_world \<lparr>status_code = 204, content = []\<rparr> (Inl JSONDecodeError)" 0
      "DeleteCategory ''5''" "\<lparr>status_code = 204, content = []\<rparr>" 1]
  by (simp add: example_world_def table_call_def BASE_URL_def str_int_404)

text \<open>
  C1 as stated fails: status 304 is not a 2xx code, and delete-category answers it with
  the confirmation of success.
\<close>

theorem status_304_counterexample:
  "\<not> (200 \<le> status_code \<lparr>status_code = 304, content = []\<rparr>
        \<and> status_code \<lparr>status_code = 304, content = []\<rparr> < 300)
   \<and> run_operation (example_world \<lparr>status_code = 304, content = []\<rparr> (Inl JSONDecodeError)) 0
        (DeleteCategory ''5'')
      = (([Sent \<lparr>meth = ''DELETE'', url = ''http://localhost:5000//categories/5'', json = PNone\<rparr>,
           Printed ''Category deleted''], None), 1)"
  by (simp add: example_world_def delete_category_def run_defs ok_def BASE_URL_def)

lemma starts_with_prefix: "starts_with (b @ c) b"
  by (induction b) auto

lemma contains_self: "contains b b"
  using starts_with_prefix[of b "[]"] by (cases b) auto

lemma contains_suffix: "contains (a @ b) b"
  by (induction a) (auto simp: contains_self)

text \<open>
  C2, amended. An operation hands a body to the decoder only if the transport returned a
  response that passes the operation's own test of success, a status code outside 400 to
  599, and the body is that response's; on a response with a code from 400 to 599 the run
  is the request and one printed error line that contains the status code, with no
  decoding and no presentation.
\<close>

theorem decode_only_on_success:
  "(Decoded b \<in> set (fst (fst (run_operation w s x))) \<longrightarrow>
      (\<exists>r s'. transport w s (table_call x) = (Inr r, s')
         \<and> \<not> (400 \<le> status_code r \<and> status_code r < 600) \<and> b = content r))
   \<and> (transport w s (table_call x) = (Inr r, s')
        \<and> 400 \<le> status_code r \<and> status_code r < 600 \<longrightarrow>
        run_operation w s x =
          (([Sent (table_call x), Printed (error_label x @ str_int (status_code r))], None), s')
        \<and> contains (error_label x @ str_int (status_code r)) (str_int (status_code r)))"
proof (intro conjI impI)
  assume "Decoded b \<in> set (fst (fst (run_operation w s x)))"
  from operation_decodes[OF this] obtain r s' where
    "transport w s (table_call x) = (Inr r, s')" "ok r" "b = content r"
    by blast
  then have "transport w s (table_call x) = (Inr r, s')
         \<and> \<not> (400 \<le> status_code r \<and> status_code r < 600) \<and> b = content r"
    by (simp add: ok_def)
  then show "\<exists>r s'. transport w s (table_call x) = (Inr r, s')
         \<and> \<not> (400 \<le> status_code r \<and> status_code r < 600) \<and> b = content r"
    by blast
next
  assume a: "transport w s (table_call x) = (Inr r, s')
        \<and> 400 \<le> status_code r \<and> status_code r < 600"
  then have "\<not> ok r" by (simp add: ok_def)
  with a show "run_operation w s x =
      (([Sent (table_call x), Printed (error_label x @ str_int (status_code r))], None), s')"
    by (simp add: operation_fails)
next
  show "contains (error_label x @ str_int (status_code r)) (str_int (status_code r))"
    by (rule contains_suffix)
qed

theorem decode_only_on_success_witness:
  "400 \<le> status_code \<lparr>status_code = 404, content = ''Not Found''\<rparr>
   \<and> status_code \<lparr>status_code = 404, content = ''Not Found''\<rparr> < 600
   \<and> run_operation
        (example_world \<lparr>status_code = 404, content = ''Not Found''\<rparr> (Inl JSONDecodeError)) 0
        (ShowCategory ''5'')
      = (([Sent \<lparr>meth = ''GET'', url = ''http://localhost:5000//categories/5'', json = PNone\<rparr>,
           Printed ''Error fetching category: 404''], None), 1)
   \<and> contains ''Error fetching category: 404'' ''404''
   \<and> \<not> (400 \<le> status_code \<lparr>status_code = 200, content = ''{}''\<rparr>
          \<and> status_code \<lparr>status_code = 200, content = ''{}''\<rparr> < 600)
   \<and> Decoded ''{}''
        \<in> set (fst (fst (run_operation
              (example_world \<lparr>status_code = 200, content = ''{}''\<rparr> (Inr (PDict []))) 0
              (ShowCategory ''5''))))"
  using decode_only_on_success
    [of "''{}''" "example_world \<lparr>status_code = 200, content = ''{}''\<rparr> (Inr (PDict []))" 0
      "ShowCategory ''5''" "\<lparr>status_code = 200, content = ''{}''\<rparr>" 1]
    decode_only_on_success
    [of "''{}''" "example_world \<lparr>status_code = 404, content = ''Not Found''\<rparr> (Inl JSONDecodeError)" 0
      "ShowCategory ''5''" "\<lparr>status_code = 404, content = ''Not Found''\<rparr>" 1]
  by (simp add: example_world_def show_category_def CategoryAdapter_display_def run_defs ok_def
      BASE_URL_def str_int_404)

text \<open>
  C2 as stated fails: status 304 is not a 2xx code, so the response is a failure in the
  claim's sense, yet show-category decodes its body (here empty, so that the decoder
  raises) and prints no error line.
\<close>

theorem show_category_304_counterexample:
  "\<not> (200 \<le> status_code \<lparr>status_code = 304, content = []\<rparr>
        \<and> status_code \<lparr>status_code = 304, content = []\<rparr> < 300)
   \<and> run_operation (example_world \<lparr>status_code = 304, content = []\<rparr> (Inl JSONDecodeError)) 0
        (ShowCategory ''5'')
      = (([Sent \<lparr>meth = ''GET'', url = ''http://localhost:5000//categories/5'', json = PNone\<rparr>,
           Decoded []], Some JSONDecodeError), 1)"
  by (simp add: example_world_def show_category_def run_defs ok_def BASE_URL_def)

text \<open>
  C4. The request of every operation goes to the base URL followed by exactly the path
  of the operations table, nothing in between.
\<close>

theorem operation_url:
  "\<exists>c tr e s'. run_operation w s x = ((Sent c # tr, e), s')
      \<and> url c = BASE_URL @ table_path x"
  using operation_sends[of w s x] by (auto simp: table_call_def)

theorem operation_url_witness:
  "url (case fst (fst (run_operation
          (example_world \<lparr>status_code = 404, content = []\<rparr> (Inl JSONDecodeError)) 0
          (ListProducts ''5''))) of Sent c # tr \<Rightarrow> c)
   = ''http://localhost:5000//categories/5/products''"
  using operation_url
    [of "example_world \<lparr>status_code = 404, content = []\<rparr> (Inl JSONDecodeError)" 0
      "ListProducts ''5''"]
  by (auto simp: BASE_URL_def)

text \<open>
  C5. On a success response whose body decodes to a mapping with an \<open>id\<close> field,
  create-category prints exactly one line, \<^verbatim>\<open>Category created with ID: \<close> followed by
  the text of the id; for an integer id that is its decimal text.
\<close>

theorem create_category_reports_id:
  assumes "transport w s (table_call (CreateCategory title description)) = (Inr r, s')"
    and "ok r"
    and "json_loads w (content r) = Inr category"
    and "subscript category ''id'' = Inr ident"
  shows "create_category w s title description =
           (([Sent (table_call (CreateCategory title description)), Decoded (content r),
              Printed (''Category created with ID: '' @ py_str w ident)], None), s')
       \<and> stdout_of (fst (fst (create_category w s title description))) =
           ''Category created with ID: '' @ py_str w ident @ [CHR 10]
       \<and> (\<forall>n. ident = PInt n \<longrightarrow>
            stdout_of (fst (fst (create_category w s title description))) =
              ''Category created with ID: '' @ str_int n @ [CHR 10])"
  using assms
  by (simp add: create_category_def run_defs stdout_of_def)

theorem create_category_reports_id_witness:
  "ok \<lparr>status_code = 201, content = ''{...}''\<rparr>
   \<and> subscript (PDict [(''id'', PInt 7), (''title'', PStr ''X''), (''description'', PStr ''Y'')])
        ''id'' = Inr (PInt 7)
   \<and> stdout_of (fst (fst (create_category
        (example_world \<lparr>status_code = 201, content = ''{...}''\<rparr>
           (Inr (PDict [(''id'', PInt 7), (''title'', PStr ''X''), (''description'', PStr ''Y'')])))
        0 ''X'' ''Y'')))
      = ''Category created with ID: 7'' @ [CHR 10]"
  using create_category_reports_id
    [of "example_world \<lparr>status_code = 201, content = ''{...}''\<rparr>
           (Inr (PDict [(''id'', PInt 7), (''title'', PStr ''X''), (''description'', PStr ''Y'')]))"
      0 "''X''" "''Y''" "\<lparr>status_code = 201, content = ''{...}''\<rparr>" 1
      "PDict [(''id'', PInt 7), (''title'', PStr ''X''), (''description'', PStr ''Y'')]" "PInt 7"]
  by (simp add: example_world_def ok_def str_int_7 stdout_of_def)

section \<open>Presentation of entities\<close>

lemma stdout_of_append: "stdout_of (a @ b) = stdout_of a @ stdout_of b"
  by (simp add: stdout_of_def)










section \<open>Lists of entities\<close>

lemma for_loop_all_return:
  assumes "\<forall>x\<in>set xs. snd (body x) = None"
  shows "for_loop body xs = (concat (map (\<lambda>x. fst (body x)) xs), None)"
  using assms
proof (induction xs)
  case Nil
  then show ?case by simp
next
  case (Cons x xs)
  then obtain tr where "body x = (tr, None)"
    by (cases "body x") simp
  moreover from Cons have "for_loop body xs = (concat (map (\<lambda>x. fst (body x)) xs), None)"
    by simp
  ultimately show ?case
    by (simp add: then_run_def)
qed

lemma stdout_of_concat_map:
  "stdout_of (concat (map f xs)) = concat (map (\<lambda>x. stdout_of (f x)) xs)"
  by (induction xs) (simp_all add: stdout_of_def)

lemma product_display_record:
  assumes "subscript product ''name'' = Inr name"
    and "subscript product ''id'' = Inr ident"
    and "subscript product ''price'' = Inr price"
    and "subscript product ''description'' = Inr description"
  shows "ProductAdapter_display w product =
           ([Printed (py_str w name @ '' (ID: '' @ py_str w ident @ '', Price: ''
                @ py_str w price @ '')''),
             Printed (py_str w description)], None)"
  using assms by (simp add: ProductAdapter_display_def then_run_def print_def)

lemma product_record_fields:
  assumes "is_product_record p"
  shows "\<exists>name ident price description.
           subscript p ''name'' = Inr name \<and> subscript p ''id'' = Inr ident
           \<and> subscript p ''price'' = Inr price \<and> subscript p ''description'' = Inr description"
  using assms by (auto simp: is_product_record_def has_field_def split: sum.splits)

lemma product_record_returns:
  assumes "is_product_record p"
  shows "snd (ProductAdapter_display w p) = None"
  using product_record_fields[OF assms] by (auto simp: product_display_record)

text \<open>
  C6. On a success response whose body decodes to a list of product records,
  list-products raises nothing and its output is, for each product in the order of the
  list, the presentation of that product followed by one empty line; so two consecutive
  presentations have exactly one empty line between them, and the empty list gives no
  output. The presentation of a record is its heading line and its description line.
\<close>

theorem list_products_renders:
  assumes "transport w s (table_call (ListProducts category_id)) = (Inr r, s')"
    and "ok r"
    and "json_loads w (content r) = Inr (PList products)"
    and "\<forall>p\<in>set products. is_product_record p"
  shows "snd (fst (list_products w s category_id)) = None
       \<and> stdout_of (fst (fst (list_products w s category_id))) =
           concat (map (\<lambda>p. stdout_of (fst (ProductAdapter_display w p)) @ [CHR 10]) products)
       \<and> (\<forall>p\<in>set products. \<exists>name ident price description.
             subscript p ''name'' = Inr name \<and> subscript p ''id'' = Inr ident
             \<and> subscript p ''price'' = Inr price \<and> subscript p ''description'' = Inr description
             \<and> ProductAdapter_display w p =
                 ([Printed (py_str w name @ '' (ID: '' @ py_str w ident @ '', Price: ''
                      @ py_str w price @ '')''),
                   Printed (py_str w description)], None))"
proof -
  let ?body = "\<lambda>product. then_run (ProductAdapter_display w product) (print [])"
  have body: "?body p = (fst (ProductAdapter_display w p) @ [Printed []], None)"
    if "p \<in> set products" for p
  proof -
    from that assms(4) have "snd (ProductAdapter_display w p) = None"
      by (simp add: product_record_returns)
    then show ?thesis
      by (cases "ProductAdapter_display w p") (simp add: then_run_def print_def)
  qed
  then have "\<forall>p\<in>set products. snd (?body p) = None" by simp
  from for_loop_all_return[OF this]
  have loop: "for_loop ?body products = (concat (map (\<lambda>p. fst (?body p)) products), None)" .
  have run: "list_products w s category_id =
      (([Sent (table_call (ListProducts category_id)), Decoded (content r)]
          @ concat (map (\<lambda>p. fst (?body p)) products), None), s')"
    using assms(1-3) loop
    by (simp add: list_products_def with_response_def send_def create_request_def then_run_def
        decode_def iterate_def table_call_def Let_def)
  have "map (\<lambda>p. stdout_of (fst (?body p))) products =
        map (\<lambda>p. stdout_of (fst (ProductAdapter_display w p)) @ [CHR 10]) products"
    by (rule map_cong[OF refl]) (simp add: body stdout_of_def)
  then have "stdout_of (concat (map (\<lambda>p. fst (?body p)) products)) =
      concat (map (\<lambda>p. stdout_of (fst (ProductAdapter_display w p)) @ [CHR 10]) products)"
    by (simp only: stdout_of_concat_map)
  moreover have "stdout_of [Sent (table_call (ListProducts category_id)), Decoded (content r)] = []"
    by (simp add: stdout_of_def)
  ultimately have out: "stdout_of (fst (fst (list_products w s category_id))) =
      concat (map (\<lambda>p. stdout_of (fst (ProductAdapter_display w p)) @ [CHR 10]) products)"
    by (simp only: run fst_conv stdout_of_append append_Nil)
  have fields: "\<forall>p\<in>set products. \<exists>name ident price description.
             subscript p ''name'' = Inr name \<and> subscript p ''id'' = Inr ident
             \<and> subscript p ''price'' = Inr price \<and> subscript p ''description'' = Inr description
             \<and> ProductAdapter_display w p =
                 ([Printed (py_str w name @ '' (ID: '' @ py_str w ident @ '', Price: ''
                      @ py_str w price @ '')''),
                   Printed (py_str w description)], None)"
  proof
    fix p assume "p \<in> set products"
    with assms(4) have "is_product_record p" by simp
    from product_record_fields[OF this] obtain name ident price description where
      f: "subscript p ''name'' = Inr name" "subscript p ''id'' = Inr ident"
         "subscript p ''price'' = Inr price" "subscript p ''description'' = Inr description"
      by blast
    from f product_display_record[OF f, of w]
    show "\<exists>name ident price description.
             subscript p ''name'' = Inr name \<and> subscript p ''id'' = Inr ident
             \<and> subscript p ''price'' = Inr price \<and> subscript p ''description'' = Inr description
             \<and> ProductAdapter_display w p =
                 ([Printed (py_str w name @ '' (ID: '' @ py_str w ident @ '', Price: ''
                      @ py_str w price @ '')''),
                   Printed (py_str w description)], None)"
      by blast
  qed
  from run out fields show ?thesis by simp
qed

lemma str_int_small:
  "str_int 1 = ''1''" "str_int 2 = ''2''" "str_int 3 = ''3''"
  by (simp_all add: str_int_def str_nat.simps digit_char_def)

theorem list_products_renders_witness:
  "is_product_record pen \<and> is_product_record ink
   \<and> stdout_of (fst (fst (list_products
        (example_world \<lparr>status_code = 200, content = ''[...]''\<rparr> (Inr (PList [pen, ink]))) 0 ''5'')))
      = ''Pen (ID: 1, Price: 2)'' @ [CHR 10] @ ''Blue'' @ [CHR 10]
        @ [CHR 10]
        @ ''Ink (ID: 2, Price: 3)'' @ [CHR 10] @ ''Black'' @ [CHR 10]
        @ [CHR 10]
   \<and> list_products
        (example_world \<lparr>status_code = 200, content = ''[]''\<rparr> (Inr (PList []))) 0 ''5''
      = (([Sent \<lparr>meth = ''GET'', url = ''http://localhost:5000//categories/5/products'',
                 json = PNone\<rparr>, Decoded ''[]''], None), 1)"
  using list_products_renders
    [of "example_world \<lparr>status_code = 200, content = ''[...]''\<rparr> (Inr (PList [pen, ink]))" 0
      "''5''" "\<lparr>status_code = 200, content = ''[...]''\<rparr>" 1 "[pen, ink]"]
    list_products_renders
    [of "example_world \<lparr>status_code = 200, content = ''[]''\<rparr> (Inr (PList []))" 0
      "''5''" "\<lparr>status_code = 200, content = ''[]''\<rparr>" 1 "[]"]
  by (simp add: example_world_def ok_def pen_def ink_def is_product_record_def has_field_def
      ProductAdapter_display_def then_run_def print_def stdout_of_def str_int_small
      list_products_def with_response_def send_def create_request_def decode_def iterate_def
      BASE_URL_def)

section \<open>Observation channel: notify\<close>

lemma observer_update_titled:
  assumes "subscript category ''title'' = Inr title"
  shows "CategoryObserver_update w category =
           ([Printed (''Category updated: '' @ py_str w title)], None)"
  using assms by (simp add: CategoryObserver_update_def print_def)

lemma notify_titled:
  assumes "subscript category ''title'' = Inr title"
  shows "notify w oc category =
           (concat (map (\<lambda>observer.
              [Updated observer, Printed (''Category updated: '' @ py_str w title)])
              (observers oc)), None)"
proof -
  let ?body = "\<lambda>observer. then_run ([Updated observer], None) (CategoryObserver_update w category)"
  have body: "?body x = ([Updated x, Printed (''Category updated: '' @ py_str w title)], None)"
    for x
    by (simp add: observer_update_titled[OF assms] then_run_def)
  then have "\<forall>x\<in>set (observers oc). snd (?body x) = None" by simp
  from for_loop_all_return[OF this] show ?thesis
    by (simp add: notify_def body)
qed

lemma invoked_updates:
  "invoked (concat (map (\<lambda>observer. [Updated observer, Printed t]) xs)) = xs"
  by (induction xs) simp_all

lemma invoked_notify:
  assumes "subscript category ''title'' = Inr title"
  shows "invoked (fst (notify w oc category)) = observers oc"
  by (simp add: notify_titled[OF assms] invoked_updates)

lemma list_remove_new: "x \<notin> set xs \<Longrightarrow> list_remove (xs @ x # ys) x = Inr (xs @ ys)"
  by (induction xs) auto

text \<open>
  C8, amended. For an entity that has a title: after attaching \<open>a\<close> and then \<open>b\<close> to a
  channel, notify enters the update of every listener attached before, in order, then of
  \<open>a\<close>, then of \<open>b\<close>; if \<open>a\<close> was not attached before, detaching it leaves the earlier
  listeners and \<open>b\<close>. On a new channel these are \<open>a\<close> then \<open>b\<close>, each once, and after the
  detach only \<open>b\<close>.
\<close>

theorem notify_in_attachment_order:
  assumes "subscript category ''title'' = Inr title"
  shows "invoked (fst (notify w (attach (attach oc a) b) category)) = observers oc @ [a, b]
       \<and> snd (notify w (attach (attach oc a) b) category) = None
       \<and> (a \<notin> set (observers oc) \<longrightarrow>
            (\<exists>oc'. detach (attach (attach oc a) b) a = Inr oc'
               \<and> invoked (fst (notify w oc' category)) = observers oc @ [b]))
       \<and> invoked (fst (notify w (attach (attach ObservableCategory_init a) b) category)) = [a, b]
       \<and> (\<exists>oc'. detach (attach (attach ObservableCategory_init a) b) a = Inr oc'
               \<and> invoked (fst (notify w oc' category)) = [b])"
proof -
  have d1: "detach (attach (attach oc a) b) a = Inr (oc\<lparr>observers := observers oc @ [b]\<rparr>)"
    if "a \<notin> set (observers oc)"
    using list_remove_new[OF that, of "[b]"] by (simp add: detach_def attach_def)
  have d2: "detach (attach (attach ObservableCategory_init a) b) a = Inr \<lparr>observers = [b]\<rparr>"
    by (simp add: detach_def attach_def ObservableCategory_init_def)
  have i1: "invoked (fst (notify w (attach (attach oc a) b) category)) = observers oc @ [a, b]"
    by (simp add: invoked_notify[OF assms] attach_def)
  have r1: "snd (notify w (attach (attach oc a) b) category) = None"
    by (simp add: notify_titled[OF assms])
  have i2: "invoked (fst (notify w (oc\<lparr>observers := observers oc @ [b]\<rparr>) category))
              = observers oc @ [b]"
    by (simp add: invoked_notify[OF assms])
  have i3: "invoked (fst (notify w (attach (attach ObservableCategory_init a) b) category))
              = [a, b]"
    by (simp add: invoked_notify[OF assms] attach_def ObservableCategory_init_def)
  have i4: "invoked (fst (notify w \<lparr>observers = [b]\<rparr> category)) = [b]"
    by (simp add: invoked_notify[OF assms])
  from d1 d2 i1 r1 i2 i3 i4 show ?thesis by simp
qed

theorem notify_in_attachment_order_witness:
  "invoked (fst (notify (example_world \<lparr>status_code = 200, content = []\<rparr> (Inr PNone))
      (attach (attach ObservableCategory_init 10) 20) (PDict [(''title'', PStr ''Books'')])))
     = [10, 20]
   \<and> detach (attach (attach ObservableCategory_init 10) 20) 10 = Inr \<lparr>observers = [20]\<rparr>
   \<and> notify (example_world \<lparr>status_code = 200, content = []\<rparr> (Inr PNone))
        \<lparr>observers = [20]\<rparr> (PDict [(''title'', PStr ''Books'')])
      = ([Updated 20, Printed ''Category updated: Books''], None)
   \<and> 10 \<notin> set (observers ObservableCategory_init)"
  using notify_in_attachment_order
    [of "PDict [(''title'', PStr ''Books'')]" "PStr ''Books''"
      "example_world \<lparr>status_code = 200, content = []\<rparr> (Inr PNone)"
      ObservableCategory_init 10 20]
  by (simp add: attach_def detach_def ObservableCategory_init_def notify_def then_run_def
      CategoryObserver_update_def print_def)

text \<open>
  C8 as stated fails in a state where \<open>a\<close> is attached already: notify then enters its
  update twice, and after one detach still enters it, not only that of \<open>b\<close>. It also
  fails for an entity without a title: the update of \<open>a\<close> raises and that of \<open>b\<close> is never
  entered.
\<close>

theorem notify_attached_twice_counterexample:
  "invoked (fst (notify (example_world \<lparr>status_code = 200, content = []\<rparr> (Inr PNone))
      (attach (attach \<lparr>observers = [10]\<rparr> 10) 20) (PDict [(''title'', PStr ''Books'')])))
     = [10, 10, 20]
   \<and> detach (attach (attach \<lparr>observers = [10]\<rparr> 10) 20) 10 = Inr \<lparr>observers = [10, 20]\<rparr>
   \<and> invoked (fst (notify (example_world \<lparr>status_code = 200, content = []\<rparr> (Inr PNone))
      \<lparr>observers = [10, 20]\<rparr> (PDict [(''title'', PStr ''Books'')])))
     = [10, 20]
   \<and> notify (example_world \<lparr>status_code = 200, content = []\<rparr> (Inr PNone))
        (attach (attach ObservableCategory_init 10) 20) (PDict [(''id'', PInt 3)])
     = ([Updated 10], Some (KeyError ''title''))"
  by (simp add: attach_def detach_def notify_def then_run_def CategoryObserver_update_def
      print_def raise_def ObservableCategory_init_def)

section \<open>Interactive shell: leaving the loop\<close>

lemma call_not_break: "call r ins \<noteq> (tr, Break, s', ins')"
  by (auto simp: call_def split: prod.splits option.splits)

lemma input_break:
  assumes "input prompt s ins rest = (tr, Break, s', ins')"
  shows "\<exists>l rs tr0. ins = l # rs \<and> rest l rs = (tr0, Break, s', ins')
           \<and> tr = Asked prompt (Some l) # tr0"
  using assms by (cases ins) (auto simp: input_def split: prod.splits)

lemma dispatch_break:
  assumes "dispatch w s choice ins = (tr, Break, s', ins')"
  shows "choice = ''0'' \<and> tr = [] \<and> s' = s \<and> ins' = ins"
  using assms unfolding dispatch_def
  by (auto split: if_splits sum.splits dest!: input_break simp: call_not_break)

lemma loop_body_break:
  assumes "loop_body w s ins = (tr, Break, s', ins')"
  shows "tr = menu @ [Asked ''Enter your choice: '' (Some ''0'')] \<and> s' = s \<and> ins = ''0'' # ins'"
proof -
  from assms obtain tr0 where
    i: "input ''Enter your choice: '' s ins (dispatch w s) = (tr0, Break, s', ins')"
    and tr: "tr = menu @ tr0"
    by (auto simp: loop_body_def split: prod.splits)
  from input_break[OF i] obtain l rs tr1 where
    "ins = l # rs" "dispatch w s l rs = (tr1, Break, s', ins')"
    "tr0 = Asked ''Enter your choice: '' (Some l) # tr1"
    by blast
  with dispatch_break[of w s l rs tr1 s' ins'] tr show ?thesis by simp
qed

lemma main_loop_exit:
  "main_loop w s (''0'' # ins) =
     (menu @ [Asked ''Enter your choice: '' (Some ''0'')], None, s, ins)"
  by (subst main_loop.simps) (simp add: loop_body_def input_def dispatch_def)

lemma main_loop_invalid:
  assumes "choice \<notin> {''0'', ''1'', ''2'', ''3'', ''4'', ''5'', ''6'', ''7''}"
  shows "main_loop w s (choice # ins) =
     (case main_loop w s ins of
        (tr, r) \<Rightarrow>
          (menu @ [Asked ''Enter your choice: '' (Some choice),
                   Printed ''Invalid choice. Please try again.''] @ tr, r))"
proof -
  from assms have d: "dispatch w s choice ins =
      ([Printed ''Invalid choice. Please try again.''], Continue, s, ins)"
    by (simp add: dispatch_def)
  have "loop_body w s (choice # ins) =
      (menu @ [Asked ''Enter your choice: '' (Some choice),
               Printed ''Invalid choice. Please try again.''], Continue, s, ins)"
    by (simp add: loop_body_def input_def d)
  then show ?thesis
    by (subst main_loop.simps) (simp split: prod.splits)
qed

lemma main_loop_unfold:
  assumes "loop_body w s ins = (t, f, s1, ins1)"
  shows "main_loop w s ins =
     (case f of
        Continue \<Rightarrow> (case main_loop w s1 ins1 of (tr', r) \<Rightarrow> (t @ tr', r))
      | Break \<Rightarrow> (t, None, s1, ins1)
      | Uncaught e \<Rightarrow> (t, Some e, s1, ins1))"
  by (subst main_loop.simps) (simp add: assms split: flow.split)

lemma main_loop_continue:
  assumes "loop_body w s ins = (t, Continue, s1, ins1)"
    and "main_loop w s1 ins1 = (t2, r2)"
  shows "main_loop w s ins = (t @ t2, r2)"
  using main_loop_unfold[OF assms(1)] assms(2) by simp

lemma main_loop_normal_exit:
  assumes "main_loop w s ins = (tr, None, s', ins')"
  shows "\<exists>tr0. tr = tr0 @ [Asked ''Enter your choice: '' (Some ''0'')]"
  using assms
proof (induction w s ins arbitrary: tr rule: main_loop.induct)
  case (1 w s ins)
  obtain t f s1 ins1 where body: "loop_body w s ins = (t, f, s1, ins1)"
    by (cases "loop_body w s ins") auto
  show ?case
  proof (cases f)
    case Continue
    obtain t2 r2 where rec: "main_loop w s1 ins1 = (t2, r2)"
      by (cases "main_loop w s1 ins1") auto
    have "main_loop w s ins = (t @ t2, r2)"
      using body rec unfolding Continue by (rule main_loop_continue)
    with "1.prems" have eq: "tr = t @ t2" "r2 = (None, s', ins')" by simp_all
    from rec eq(2) have "main_loop w s1 ins1 = (t2, None, s', ins')" by simp
    from "1.IH"[OF body[symmetric] refl Continue refl this]
    obtain tr0 where tr0: "t2 = tr0 @ [Asked ''Enter your choice: '' (Some ''0'')]"
      by (rule exE)
    have "tr = (t @ tr0) @ [Asked ''Enter your choice: '' (Some ''0'')]"
      by (simp only: eq(1) tr0 append_assoc)
    then show ?thesis by (rule exI[of _ "t @ tr0"])
  next
    case Break
    from main_loop_unfold[OF body] Break have "main_loop w s ins = (t, None, s1, ins1)" by simp
    with "1.prems" have "tr = t" by simp
    moreover have "t = menu @ [Asked ''Enter your choice: '' (Some ''0'')]"
      using loop_body_break[of w s ins t s1 ins1] body Break by simp
    ultimately have "tr = menu @ [Asked ''Enter your choice: '' (Some ''0'')]"
      by (rule trans)
    then show ?thesis by (rule exI[of _ menu])
  next
    case (Uncaught e)
    from main_loop_unfold[OF body] Uncaught have "main_loop w s ins = (t, Some e, s1, ins1)"
      by simp
    with "1.prems" show ?thesis by simp
  qed
qed

text \<open>
  C9, amended. When the selection read at the start of a pass is \<^verbatim>\<open>0\<close>, the loop ends
  there without an exception. For a selection that is none of \<^verbatim>\<open>0\<close> to \<^verbatim>\<open>7\<close> the
  pass prints the invalid-choice message and the loop goes on with the next line and the
  same server state. Whenever the loop ends without an exception, the last thing it did
  was to read the selection \<^verbatim>\<open>0\<close>. (The loop can also end by an exception that nothing
  catches.)
\<close>

theorem main_loop_exits:
  "main_loop w s (''0'' # ins) =
     (menu @ [Asked ''Enter your choice: '' (Some ''0'')], None, s, ins)
   \<and> (choice \<notin> {''0'', ''1'', ''2'', ''3'', ''4'', ''5'', ''6'', ''7''} \<longrightarrow>
        main_loop w s (choice # ins) =
          (case main_loop w s ins of
             (tr, r) \<Rightarrow>
               (menu @ [Asked ''Enter your choice: '' (Some choice),
                        Printed ''Invalid choice. Please try again.''] @ tr, r)))
   \<and> (main_loop w s lines = (trace, None, s', lines') \<longrightarrow>
        (\<exists>tr0. trace = tr0 @ [Asked ''Enter your choice: '' (Some ''0'')]))"
  using main_loop_exit[of w s ins] main_loop_invalid[of choice w s ins]
    main_loop_normal_exit[of w s lines trace s' lines']
  by (intro conjI impI) assumption+

theorem main_loop_exits_witness:
  "''9'' \<notin> {''0'', ''1'', ''2'', ''3'', ''4'', ''5'', ''6'', ''7''}
   \<and> main_loop (example_world \<lparr>status_code = 200, content = []\<rparr> (Inr PNone)) 0 [''9'', ''0'']
     = (menu @ [Asked ''Enter your choice: '' (Some ''9''),
                Printed ''Invalid choice. Please try again.'']
          @ menu @ [Asked ''Enter your choice: '' (Some ''0'')], None, 0, [])"
  using main_loop_exits
    [of "example_world \<lparr>status_code = 200, content = []\<rparr> (Inr PNone)" 0 "[''0'']" "''9''"
      "[''9'', ''0'']"
      "menu @ [Asked ''Enter your choice: '' (Some ''9''),
               Printed ''Invalid choice. Please try again.'']
          @ menu @ [Asked ''Enter your choice: '' (Some ''0'')]" 0 "[]"]
    main_loop_exits
    [of "example_world \<lparr>status_code = 200, content = []\<rparr> (Inr PNone)" 0 "[]" "''9''"
      "[]" "[]" 0 "[]"]
  by simp

text \<open>
  C9 as stated fails: with selection \<^verbatim>\<open>6\<close> and the price text \<^verbatim>\<open>abc\<close>, \<^verbatim>\<open>float\<close>
  raises \<^verbatim>\<open>ValueError\<close>, nothing catches it, and the loop ends although \<^verbatim>\<open>0\<close> was
  never entered.
\<close>

theorem price_not_numeric_counterexample:
  "main_loop (example_world \<lparr>status_code = 200, content = []\<rparr> (Inr PNone)) 0
      [''6'', ''1'', ''Pen'', ''abc'']
     = (menu @ [Asked ''Enter your choice: '' (Some ''6''),
                Asked ''Enter category ID: '' (Some ''1''),
                Asked ''Enter product name: '' (Some ''Pen''),
                Asked ''Enter product price: '' (Some ''abc'')], Some ValueError, 0, [])
   \<and> ''0'' \<notin> set [''6'', ''1'', ''Pen'', ''abc'']"
  by (subst main_loop.simps)
    (simp add: loop_body_def input_def dispatch_def example_world_def ascii_float_def
      is_decimal_def drop_sign_def strip_def is_digit_def is_space_def lower_def)

end
